theory Spec2Isabelle
  imports Main
begin

section \<open>Menu Resolver (src/pages/FoodMenu.tsx)\<close>

subsection \<open>Data model\<close>

text \<open>
  The \<open>items\<close> payload of a scheduled menu, a JSON column. At run time the code
  distinguishes an array (\<open>Array.isArray(menu.items)\<close>) from an object keyed by meal
  type; any other truthy value (a number, a string, \<open>true\<close>) is neither. A payload that
  is \<open>null\<close> or otherwise falsy is the \<open>None\<close> of the record field below. An object
  is read by key and, as its declared type
  \<open>{ [key: string]: string[] | undefined }\<close> says, a key gives an array of strings or
  \<open>undefined\<close>; names inherited from \<open>Object.prototype\<close> are not part of the model.
\<close>

datatype items_payload =
    ItemsArray "string list"
  | ItemsObject "string \<rightharpoonup> string list"
  | ItemsOther

record ScheduledMenu =
  menu_id :: string
  date :: string
  meal_type :: string
  items :: "items_payload option"
  published :: bool

text \<open>
  \<open>Record<string, string>\<close> and \<open>Record<string, Record<string, string>>\<close>: objects read
  and written by string keys.
\<close>

type_synonym day_menu = "string \<rightharpoonup> string"
type_synonym week_menu = "string \<rightharpoonup> day_menu"

text \<open>
  What the host gives the code and the code does not define: how \<open>new Date(s)\<close> parses a
  string (the time value in milliseconds since the epoch, \<open>None\<close> for an invalid date,
  whose time value is NaN) and the offset of local time from UTC in milliseconds at a
  given instant. Every theorem below holds for every host.
\<close>

record host =
  parseDate :: "string \<Rightarrow> int option"
  localTZA :: "int \<Rightarrow> int"

definition days :: "string list" where
  "days = [''sunday'', ''monday'', ''tuesday'', ''wednesday'', ''thursday'', ''friday'',
           ''saturday'']"

definition fallbackWeeklyMenu :: week_menu where
  "fallbackWeeklyMenu =
    [''monday'' \<mapsto>
       [''breakfast'' \<mapsto> ''Idli, Vada, Sambar, Coconut Chutney, Coffee/Tea'',
        ''lunch'' \<mapsto> ''Rice, Dal, Aloo Gobi, Chapati, Curd, Pickle'',
        ''snacks'' \<mapsto> ''Biscuits, Coffee/Tea'',
        ''dinner'' \<mapsto> ''Chapati, Paneer Butter Masala, Jeera Rice, Salad''],
     ''tuesday'' \<mapsto>
       [''breakfast'' \<mapsto> ''Poha, Boiled Eggs, Bread, Jam, Coffee/Tea'',
        ''lunch'' \<mapsto> ''Rice, Rajma, Mixed Vegetable, Chapati, Raita'',
        ''snacks'' \<mapsto> ''Samosa, Coffee/Tea'',
        ''dinner'' \<mapsto> ''Chapati, Chicken Curry, Rice, Salad, Ice Cream''],
     ''wednesday'' \<mapsto>
       [''breakfast'' \<mapsto> ''Dosa, Coconut Chutney, Upma, Coffee/Tea'',
        ''lunch'' \<mapsto> ''Rice, Dal Makhani, Bhindi Fry, Chapati, Curd'',
        ''snacks'' \<mapsto> ''Vada Pav, Coffee/Tea'',
        ''dinner'' \<mapsto> ''Chapati, Egg Curry, Veg Pulao, Raita''],
     ''thursday'' \<mapsto>
       [''breakfast'' \<mapsto> ''Paratha, Curd, Fruits, Coffee/Tea'',
        ''lunch'' \<mapsto> ''Rice, Kadhi, Aloo Matar, Chapati, Pickle'',
        ''snacks'' \<mapsto> ''Kachori, Coffee/Tea'',
        ''dinner'' \<mapsto> ''Chapati, Dal Tadka, Veg Biryani, Salad''],
     ''friday'' \<mapsto>
       [''breakfast'' \<mapsto> ''Bread Omelette, Cornflakes, Milk, Coffee/Tea'',
        ''lunch'' \<mapsto> ''Rice, Chole, Aloo Jeera, Chapati, Raita'',
        ''snacks'' \<mapsto> ''Pav Bhaji, Coffee/Tea'',
        ''dinner'' \<mapsto> ''Chapati, Mix Veg Curry, Fried Rice, Gulab Jamun''],
     ''saturday'' \<mapsto>
       [''breakfast'' \<mapsto> ''Puri, Bhaji, Sprouts, Coffee/Tea'',
        ''lunch'' \<mapsto> ''Rice, Dal Fry, Gobi Matar, Chapati, Curd'',
        ''snacks'' \<mapsto> ''Bread Pakora, Coffee/Tea'',
        ''dinner'' \<mapsto> ''Chapati, Fish Curry, Jeera Rice, Salad''],
     ''sunday'' \<mapsto>
       [''breakfast'' \<mapsto> ''Chole Bhature, Fruits, Coffee/Tea'',
        ''lunch'' \<mapsto> ''Rice, Sambar, Rasam, Chapati, Papad, Sweet'',
        ''snacks'' \<mapsto> ''French Fries, Coffee/Tea'',
        ''dinner'' \<mapsto> ''Chapati, Mutton/Paneer Curry, Pulao, Raita, Ice Cream'']]"

subsection \<open>The pieces of JavaScript the merge relies on\<close>

text \<open>\<open>Array.prototype.join(', ')\<close> on an array of strings.\<close>

fun join_comma :: "string list \<Rightarrow> string" where
  "join_comma [] = []"
| "join_comma [x] = x"
| "join_comma (x # y # ys) = x @ '', '' @ join_comma (y # ys)"

text \<open>
  \<open>a >= b\<close> on two \<open>Date\<close> objects compares their time values; a comparison with NaN is
  false.
\<close>

definition date_ge :: "int option \<Rightarrow> int option \<Rightarrow> bool" where
  "date_ge a b = (case a of None \<Rightarrow> False
                  | Some x \<Rightarrow> (case b of None \<Rightarrow> False | Some y \<Rightarrow> y \<le> x))"

text \<open>
  \<open>Date.prototype.getDay\<close> of a valid date: the day of the week of the local time,
  \<open>(floor(local / 86400000) + 4) mod 7\<close> with 0 for Sunday (1 January 1970 was a
  Thursday).
\<close>

definition getDay :: "host \<Rightarrow> int \<Rightarrow> nat" where
  "getDay h t = nat (((t + localTZA h t) div 86400000 + 4) mod 7)"

text \<open>
  \<open>getCurrentDay\<close>, which picks the tab shown first: the local day of the week of the
  present instant, here the parameter \<open>now\<close>.
\<close>

definition getCurrentDay :: "host \<Rightarrow> int \<Rightarrow> string" where
  "getCurrentDay h now = days ! getDay h now"

text \<open>
  \<open>new Date(s).getTime()\<close> as the sort key. The comparator of the source subtracts two
  time values; it is only ever called on records that passed the filter, whose dates are
  valid, so the \<open>None\<close> branch is never the key of a sorted record.
\<close>

definition getTime :: "host \<Rightarrow> string \<Rightarrow> int" where
  "getTime h s = (case parseDate h s of None \<Rightarrow> 0 | Some t \<Rightarrow> t)"

text \<open>The object spread \<open>{ ...o }\<close>, which copies nothing when \<open>o\<close> is \<open>undefined\<close>.\<close>

definition spread :: "day_menu option \<Rightarrow> day_menu" where
  "spread ob = (case ob of None \<Rightarrow> Map.empty | Some r \<Rightarrow> r)"

subsection \<open>menusByDay\<close>

text \<open>The initialisation loop \<open>days.forEach(day => grouped[day] = {...fallback[day]})\<close>.\<close>

definition initGrouped :: week_menu where
  "initGrouped = foldl (\<lambda>grouped day. grouped(day \<mapsto> spread (fallbackWeeklyMenu day)))
                       Map.empty days"

text \<open>The filter \<open>menuDate >= todayDate\<close> and the list it keeps.\<close>

definition onOrAfterToday :: "host \<Rightarrow> string \<Rightarrow> ScheduledMenu \<Rightarrow> bool" where
  "onOrAfterToday h today menu = date_ge (parseDate h (date menu)) (parseDate h today)"

definition relevantMenus :: "host \<Rightarrow> string \<Rightarrow> ScheduledMenu list \<Rightarrow> ScheduledMenu list" where
  "relevantMenus h today scheduledMenus = filter (onOrAfterToday h today) scheduledMenus"

text \<open>
  \<open>relevantMenus.sort(...)\<close>: ascending by time value, records of equal date keeping their
  order (the sort of the language is stable).
\<close>

definition sortedMenus :: "host \<Rightarrow> string \<Rightarrow> ScheduledMenu list \<Rightarrow> ScheduledMenu list" where
  "sortedMenus h today scheduledMenus =
     sort_key (\<lambda>menu. getTime h (date menu)) (relevantMenus h today scheduledMenus)"

text \<open>
  \<open>days[new Date(menu.date).getDay()]\<close>. On an invalid date \<open>getDay\<close> is NaN and the
  index reads \<open>undefined\<close>, which as a property key is the string \<open>undefined\<close>.
\<close>

definition dayNameOf :: "host \<Rightarrow> string \<Rightarrow> string" where
  "dayNameOf h s = (case parseDate h s of None \<Rightarrow> ''undefined''
                    | Some t \<Rightarrow> days ! getDay h t)"

text \<open>The display string of a payload that is not \<open>null\<close>, for a given meal type.\<close>

definition itemsString :: "items_payload \<Rightarrow> string \<Rightarrow> string" where
  "itemsString its mt =
     (case its of
        ItemsArray xs \<Rightarrow> join_comma xs
      | ItemsObject obj \<Rightarrow> (case obj mt of Some xs \<Rightarrow> join_comma xs | None \<Rightarrow> [])
      | ItemsOther \<Rightarrow> [])"

text \<open>The body of \<open>relevantMenus.forEach\<close>.\<close>

definition applyMenu :: "host \<Rightarrow> week_menu \<Rightarrow> ScheduledMenu \<Rightarrow> week_menu" where
  "applyMenu h grouped menu =
     (let dayName = dayNameOf h (date menu) in
      case items menu of
        None \<Rightarrow> grouped
      | Some its \<Rightarrow>
          if meal_type menu = [] then grouped
          else if itemsString its (meal_type menu) = [] then grouped
          else grouped(dayName \<mapsto>
                 (spread (grouped dayName))(meal_type menu \<mapsto> itemsString its (meal_type menu))))"

definition menusByDay :: "host \<Rightarrow> string \<Rightarrow> ScheduledMenu list \<Rightarrow> week_menu" where
  "menusByDay h today scheduledMenus =
     (if 0 < length scheduledMenus
      then foldl (applyMenu h) initGrouped (sortedMenus h today scheduledMenus)
      else initGrouped)"

text \<open>Reading one slot of the result, \<open>grouped[day]?.[slot]\<close>.\<close>

definition slotOf :: "week_menu \<Rightarrow> string \<Rightarrow> string \<Rightarrow> string option" where
  "slotOf grouped day slot = (case grouped day of None \<Rightarrow> None | Some r \<Rightarrow> r slot)"

definition mealSlots :: "string list" where
  "mealSlots = [''breakfast'', ''lunch'', ''snacks'', ''dinner'']"

section \<open>Session/Profile Binder (src/contexts/AuthContext.tsx)\<close>

subsection \<open>Data model\<close>

text \<open>
  The \<open>User\<close> type. Optional properties are options. The theme is typed
  \<open>'light' | 'dark'\<close>, but \<open>formatUser\<close> only casts the text column of the profile row,
  so at run time it is any string.
\<close>

record User =
  user_id :: string
  name :: string
  email :: string
  roomNumber :: string
  regNumber :: string
  phoneNumber :: "string option"
  avatar :: "string option"
  theme :: "string option"
  isAdmin :: "bool option"

text \<open>
  \<open>Partial<User>\<close>: \<open>None\<close> is a property that was not supplied. For the properties that
  are optional in \<open>User\<close> a supplied value may itself be \<open>undefined\<close> (\<open>Some None\<close>).
\<close>

record UserUpdates =
  upd_id :: "string option"
  upd_name :: "string option"
  upd_email :: "string option"
  upd_roomNumber :: "string option"
  upd_regNumber :: "string option"
  upd_phoneNumber :: "string option option"
  upd_avatar :: "string option option"
  upd_theme :: "string option option"
  upd_isAdmin :: "bool option option"

text \<open>The object sent to the \<open>profiles\<close> table; a column that was not set is \<open>None\<close>.\<close>

record ProfileUpdates =
  col_name :: "string option"
  col_phone_number :: "string option"
  col_avatar :: "string option"
  col_theme :: "string option"

datatype auth_error = AuthError (message: string)

datatype remote_call =
    SignInWithPassword string string
  | ProfilesUpdate ProfileUpdates string

text \<open>
  The backend is opaque: for each call it answers with no error or with an error. A
  promise that rejects reaches the same \<open>catch\<close> block as a returned error, so both are
  the \<open>Some\<close> case.
\<close>

record backend =
  signInWithPassword :: "string \<Rightarrow> string \<Rightarrow> auth_error option"
  profilesUpdate :: "ProfileUpdates \<Rightarrow> string \<Rightarrow> auth_error option"

record toast =
  title :: string
  description :: string
  destructive :: bool

text \<open>
  The state the provider owns or touches: the two React states, the notifications shown,
  the lines written with \<open>console.error\<close>, whether the document root carries the class
  \<open>dark\<close>, and the calls sent to the backend, in order.
\<close>

record auth_state =
  user :: "User option"
  isLoading :: bool
  toasts :: "toast list"
  consoleErrors :: "(string \<times> string) list"
  darkClass :: bool
  remoteCalls :: "remote_call list"

subsection \<open>Operations\<close>

text \<open>Truthiness of a string-valued property: present, defined and not empty.\<close>

definition truthy :: "string option \<Rightarrow> bool" where
  "truthy v = (case v of None \<Rightarrow> False | Some s \<Rightarrow> s \<noteq> [])"

definition flatten :: "'a option option \<Rightarrow> 'a option" where
  "flatten v = (case v of None \<Rightarrow> None | Some w \<Rightarrow> w)"

definition login :: "backend \<Rightarrow> string \<Rightarrow> string \<Rightarrow> auth_state \<Rightarrow> (auth_error + unit) \<times> auth_state" where
  "login be em password st =
     (let st1 = st\<lparr>isLoading := True,
                   remoteCalls := remoteCalls st @ [SignInWithPassword em password]\<rparr>
      in case signInWithPassword be em password of
           None \<Rightarrow>
             (Inr (),
              st1\<lparr>toasts := toasts st1 @
                     [\<lparr>title = ''Login successful'',
                       description = ''Welcome back to the Hostel Mess Management System'',
                       destructive = False\<rparr>],
                  isLoading := False\<rparr>)
         | Some err \<Rightarrow>
             (Inl err,
              st1\<lparr>consoleErrors := consoleErrors st1 @ [(''Login failed:'', message err)],
                  toasts := toasts st1 @
                     [\<lparr>title = ''Login failed'', description = message err,
                       destructive = True\<rparr>],
                  isLoading := False\<rparr>))"

text \<open>The four guarded assignments that build \<open>profileUpdates\<close>.\<close>

definition profileUpdatesOf :: "UserUpdates \<Rightarrow> ProfileUpdates" where
  "profileUpdatesOf updates =
     \<lparr>col_name = (if truthy (upd_name updates) then upd_name updates else None),
      col_phone_number = (if truthy (flatten (upd_phoneNumber updates))
                          then flatten (upd_phoneNumber updates) else None),
      col_avatar = (if truthy (flatten (upd_avatar updates))
                    then flatten (upd_avatar updates) else None),
      col_theme = (if truthy (flatten (upd_theme updates))
                      \<and> (flatten (upd_theme updates) = Some ''light''
                          \<or> flatten (upd_theme updates) = Some ''dark'')
                   then flatten (upd_theme updates) else None)\<rparr>"

text \<open>The spread \<open>{ ...prev, ...updates }\<close>: every supplied property replaces the old one.\<close>

definition mergeUser :: "User \<Rightarrow> UserUpdates \<Rightarrow> User" where
  "mergeUser prev updates =
     \<lparr>user_id = (case upd_id updates of None \<Rightarrow> user_id prev | Some v \<Rightarrow> v),
      name = (case upd_name updates of None \<Rightarrow> name prev | Some v \<Rightarrow> v),
      email = (case upd_email updates of None \<Rightarrow> email prev | Some v \<Rightarrow> v),
      roomNumber = (case upd_roomNumber updates of None \<Rightarrow> roomNumber prev | Some v \<Rightarrow> v),
      regNumber = (case upd_regNumber updates of None \<Rightarrow> regNumber prev | Some v \<Rightarrow> v),
      phoneNumber = (case upd_phoneNumber updates of None \<Rightarrow> phoneNumber prev | Some v \<Rightarrow> v),
      avatar = (case upd_avatar updates of None \<Rightarrow> avatar prev | Some v \<Rightarrow> v),
      theme = (case upd_theme updates of None \<Rightarrow> theme prev | Some v \<Rightarrow> v),
      isAdmin = (case upd_isAdmin updates of None \<Rightarrow> isAdmin prev | Some v \<Rightarrow> v)\<rparr>"

definition updateProfile :: "backend \<Rightarrow> UserUpdates \<Rightarrow> auth_state \<Rightarrow> (auth_error + unit) \<times> auth_state" where
  "updateProfile be updates st =
     (case user st of
        None \<Rightarrow> (Inr (), st)
      | Some u \<Rightarrow>
          (let profileUpdates = profileUpdatesOf updates;
               st1 = st\<lparr>remoteCalls := remoteCalls st @ [ProfilesUpdate profileUpdates (user_id u)]\<rparr>
           in case profilesUpdate be profileUpdates (user_id u) of
                Some err \<Rightarrow>
                  (Inr (),
                   st1\<lparr>consoleErrors := consoleErrors st1 @
                          [(''Profile update failed:'', message err)],
                       toasts := toasts st1 @
                          [\<lparr>title = ''Profile update failed'', description = message err,
                            destructive = True\<rparr>]\<rparr>)
              | None \<Rightarrow>
                  (Inr (),
                   st1\<lparr>user := (case user st1 of None \<Rightarrow> None
                                | Some prev \<Rightarrow> Some (mergeUser prev updates)),
                       darkClass := (if truthy (flatten (upd_theme updates))
                                     then flatten (upd_theme updates) = Some ''dark''
                                     else darkClass st1),
                       toasts := toasts st1 @
                          [\<lparr>title = ''Profile updated'',
                            description = ''Your profile has been updated successfully'',
                            destructive = False\<rparr>]\<rparr>)))"

text \<open>\<open>user.theme === 'light' ? 'dark' : 'light'\<close>.\<close>

definition newTheme :: "User \<Rightarrow> string" where
  "newTheme u = (if theme u = Some ''light'' then ''dark'' else ''light'')"

text \<open>The object \<open>{ theme: newTheme }\<close> sent to the \<open>profiles\<close> table.\<close>

definition themeRequest :: "string \<Rightarrow> ProfileUpdates" where
  "themeRequest t = \<lparr>col_name = None, col_phone_number = None, col_avatar = None,
                     col_theme = Some t\<rparr>"

definition toggleTheme :: "backend \<Rightarrow> auth_state \<Rightarrow> (auth_error + unit) \<times> auth_state" where
  "toggleTheme be st =
     (case user st of
        None \<Rightarrow> (Inr (), st)
      | Some u \<Rightarrow>
          (let request = themeRequest (newTheme u);
               st1 = st\<lparr>remoteCalls := remoteCalls st @ [ProfilesUpdate request (user_id u)]\<rparr>
           in case profilesUpdate be request (user_id u) of
                Some err \<Rightarrow>
                  (Inr (),
                   st1\<lparr>consoleErrors := consoleErrors st1 @
                          [(''Theme toggle failed:'', message err)],
                       toasts := toasts st1 @
                          [\<lparr>title = ''Theme toggle failed'', description = message err,
                            destructive = True\<rparr>]\<rparr>)
              | None \<Rightarrow>
                  (Inr (),
                   st1\<lparr>user := (case user st1 of None \<Rightarrow> None
                                | Some prev \<Rightarrow> Some (prev\<lparr>theme := Some (newTheme u)\<rparr>)),
                       darkClass := (newTheme u = ''dark'')\<rparr>)))"

section \<open>Concrete inputs\<close>

text \<open>
  A host in Indian Standard Time (UTC+5:30) that parses four date-only ISO strings to
  their UTC midnights; 3 January 2024 and 1 January 2025 are Wednesdays.
\<close>

definition istHost :: host where
  "istHost = \<lparr>parseDate = map_of [(''2024-01-02'', 1704153600000),
                                   (''2024-01-03'', 1704240000000),
                                   (''2024-01-10'', 1704844800000),
                                   (''2025-01-01'', 1735689600000)],
              localTZA = (\<lambda>t. 19800000)\<rparr>"

text \<open>
  The same parser on a host in New York in winter (UTC-5:00), and an instant of
  3 January 2024 there: 15:00 UTC, 10:00 local time.
\<close>

definition nyHost :: host where
  "nyHost = \<lparr>parseDate = map_of [(''2024-01-02'', 1704153600000),
                                  (''2024-01-03'', 1704240000000),
                                  (''2024-01-10'', 1704844800000),
                                  (''2025-01-01'', 1735689600000)],
             localTZA = (\<lambda>t. - 18000000)\<rparr>"

definition nyMorning :: int where
  "nyMorning = 1704294000000"

definition yesterdayDinner :: ScheduledMenu where
  "yesterdayDinner = \<lparr>menu_id = ''m0'', date = ''2024-01-02'', meal_type = ''dinner'',
                      items = Some (ItemsArray [''Pizza'']), published = True\<rparr>"

definition todayLunch :: ScheduledMenu where
  "todayLunch = \<lparr>menu_id = ''m1'', date = ''2024-01-03'', meal_type = ''lunch'',
                 items = Some (ItemsObject [''lunch'' \<mapsto> [''Rice'', ''Dal'']]),
                 published = True\<rparr>"

definition todayBreakfast :: ScheduledMenu where
  "todayBreakfast = \<lparr>menu_id = ''m2'', date = ''2024-01-03'', meal_type = ''breakfast'',
                     items = Some (ItemsArray [''Tea'', ''Toast'']), published = True\<rparr>"

definition todaySnacksEmpty :: ScheduledMenu where
  "todaySnacksEmpty = \<lparr>menu_id = ''m3'', date = ''2024-01-03'', meal_type = ''snacks'',
                       items = Some (ItemsObject [''lunch'' \<mapsto> [''Rice'']]),
                       published = True\<rparr>"

definition nextWeekLunch :: ScheduledMenu where
  "nextWeekLunch = \<lparr>menu_id = ''m4'', date = ''2024-01-10'', meal_type = ''lunch'',
                    items = Some (ItemsArray [''Biryani'', ''Raita'']), published = True\<rparr>"

definition nextYearLunch :: ScheduledMenu where
  "nextYearLunch = \<lparr>menu_id = ''m5'', date = ''2025-01-01'', meal_type = ''lunch'',
                    items = Some (ItemsArray [''Pulao'']), published = True\<rparr>"

definition asha :: User where
  "asha = \<lparr>user_id = ''u1'', name = ''Asha'', email = ''asha@example.com'',
           roomNumber = ''B-12'', regNumber = ''21BCE001'', phoneNumber = None,
           avatar = None, theme = Some ''light'', isAdmin = Some False\<rparr>"

definition signedOut :: auth_state where
  "signedOut = \<lparr>user = None, isLoading = False, toasts = [], consoleErrors = [],
                darkClass = False, remoteCalls = []\<rparr>"

definition signedIn :: auth_state where
  "signedIn = \<lparr>user = Some asha, isLoading = False, toasts = [], consoleErrors = [],
               darkClass = False, remoteCalls = []\<rparr>"

definition failingBackend :: backend where
  "failingBackend = \<lparr>signInWithPassword = (\<lambda>em password. Some (AuthError ''Invalid login credentials'')),
                     profilesUpdate = (\<lambda>row ident. Some (AuthError ''permission denied''))\<rparr>"

definition workingBackend :: backend where
  "workingBackend = \<lparr>signInWithPassword = (\<lambda>em password. None),
                     profilesUpdate = (\<lambda>row ident. None)\<rparr>"

definition noUpdates :: UserUpdates where
  "noUpdates = \<lparr>upd_id = None, upd_name = None, upd_email = None, upd_roomNumber = None,
                upd_regNumber = None, upd_phoneNumber = None, upd_avatar = None,
                upd_theme = None, upd_isAdmin = None\<rparr>"

section \<open>Properties of the Menu Resolver\<close>

subsection \<open>Auxiliary facts\<close>

lemma getDay_less: "getDay h t < 7"
  by (simp add: getDay_def nat_less_iff)

text \<open>
  A date-only ISO string parses to a UTC midnight. For a host at or east of UTC (by less
  than a day) the day of the week read from it is that of the calendar date; for a host
  west of UTC it is the day before.
\<close>

lemma getDay_utc_midnight_east:
  "0 \<le> localTZA h (86400000 * d) \<Longrightarrow> localTZA h (86400000 * d) < 86400000 \<Longrightarrow>
   getDay h (86400000 * d) = nat ((d + 4) mod 7)"
  by (simp add: getDay_def)

lemma getDay_utc_midnight_west:
  "localTZA h (86400000 * d) < 0 \<Longrightarrow> - 86400000 \<le> localTZA h (86400000 * d) \<Longrightarrow>
   getDay h (86400000 * d) = nat ((d + 3) mod 7)"
proof -
  assume "localTZA h (86400000 * d) < 0" "- 86400000 \<le> localTZA h (86400000 * d)"
  then have "(86400000 * d + localTZA h (86400000 * d)) div 86400000 = d - 1"
    by (simp add: div_pos_neg_trivial algebra_simps)
  then show ?thesis by (simp add: getDay_def add.commute)
qed

lemma days_length: "length days = 7"
  by (simp add: days_def)

lemma dayNameOf_in_days: "parseDate h s = Some t \<Longrightarrow> dayNameOf h s \<in> set days"
  by (simp add: dayNameOf_def getDay_less days_length)

lemma initGrouped_fallback: "initGrouped = fallbackWeeklyMenu"
  by (rule ext) (simp add: initGrouped_def days_def fallbackWeeklyMenu_def spread_def)

lemma applyMenu_other_day:
  "dayNameOf h (date menu) \<noteq> day \<Longrightarrow> applyMenu h grouped menu day = grouped day"
  by (simp add: applyMenu_def Let_def split: option.splits)

lemma slotOf_applyMenu_other:
  "day \<noteq> dayNameOf h (date menu) \<or> slot \<noteq> meal_type menu \<Longrightarrow>
   slotOf (applyMenu h grouped menu) day slot = slotOf grouped day slot"
  by (auto simp: applyMenu_def slotOf_def spread_def Let_def split: option.splits)

lemma slotOf_applyMenu_same:
  "items menu = Some its \<Longrightarrow> meal_type menu \<noteq> [] \<Longrightarrow> itemsString its (meal_type menu) \<noteq> [] \<Longrightarrow>
   slotOf (applyMenu h grouped menu) (dayNameOf h (date menu)) (meal_type menu)
     = Some (itemsString its (meal_type menu))"
  by (simp add: applyMenu_def slotOf_def Let_def)

lemma foldl_applyMenu_other_day:
  "\<forall>menu \<in> set ms. dayNameOf h (date menu) \<noteq> day \<Longrightarrow>
   foldl (applyMenu h) grouped ms day = grouped day"
  by (induction ms arbitrary: grouped) (simp_all add: applyMenu_other_day)


lemma set_sortedMenus: "set (sortedMenus h today ms) = set (relevantMenus h today ms)"
  by (simp add: sortedMenus_def)

lemma menusByDay_fold:
  "menusByDay h today ms = foldl (applyMenu h) initGrouped (sortedMenus h today ms)"
  by (cases ms) (simp_all add: menusByDay_def sortedMenus_def relevantMenus_def)


lemma join_comma_concat: "join_comma (x # xs) = x @ concat (map (\<lambda>y. '', '' @ y) xs)"
  by (induction xs arbitrary: x) simp_all

lemmas resolver_defs =
  menusByDay_def sortedMenus_def relevantMenus_def onOrAfterToday_def date_ge_def
  getTime_def applyMenu_def dayNameOf_def getDay_def days_def itemsString_def slotOf_def
  spread_def initGrouped_def fallbackWeeklyMenu_def mealSlots_def

lemmas example_menus =
  istHost_def yesterdayDinner_def todayLunch_def todayBreakfast_def todaySnacksEmpty_def
  nextWeekLunch_def nextYearLunch_def

lemma single_menu_day:
  "onOrAfterToday h today menu \<Longrightarrow>
   menusByDay h today [menu] = applyMenu h fallbackWeeklyMenu menu"
  by (simp add: menusByDay_def sortedMenus_def relevantMenus_def initGrouped_fallback)

lemma applyMenu_skip:
  "items menu = None \<or> meal_type menu = [] \<or> (\<exists>its. items menu = Some its \<and> itemsString its (meal_type menu) = []) \<Longrightarrow>
   applyMenu h grouped menu = grouped"
  by (auto simp: applyMenu_def Let_def split: option.splits)

lemma today_onOrAfter:
  "parseDate h today = Some t0 \<Longrightarrow> date menu = today \<Longrightarrow> onOrAfterToday h today menu"
  by (simp add: onOrAfterToday_def date_ge_def)

subsection \<open>Date filter\<close>




subsection \<open>Fallback\<close>

text \<open>
  C2. A day to which none of the records kept by the filter maps keeps the fallback entry
  of that day, all slots included; with no fetched records the whole result is the
  fallback schedule.
\<close>

theorem resolver_fallback_when_unmatched:
  "((\<forall>menu \<in> set (relevantMenus h today ms). dayNameOf h (date menu) \<noteq> day) \<longrightarrow>
      menusByDay h today ms day = fallbackWeeklyMenu day)
   \<and> menusByDay h today [] = fallbackWeeklyMenu"
proof -
  have "menusByDay h today ms day = fallbackWeeklyMenu day"
    if "\<forall>menu \<in> set (relevantMenus h today ms). dayNameOf h (date menu) \<noteq> day"
    using that
    by (simp add: menusByDay_fold foldl_applyMenu_other_day set_sortedMenus initGrouped_fallback)
  moreover have "menusByDay h today [] = fallbackWeeklyMenu"
    by (simp add: menusByDay_def initGrouped_fallback)
  ultimately show ?thesis by blast
qed

theorem resolver_fallback_when_unmatched_witness:
  "dayNameOf istHost (date todayLunch) \<noteq> ''monday''
   \<and> menusByDay istHost ''2024-01-03'' [yesterdayDinner, todayLunch] ''monday''
       = fallbackWeeklyMenu ''monday''
   \<and> slotOf (menusByDay istHost ''2024-01-03'' [yesterdayDinner, todayLunch]) ''monday'' ''dinner''
       = Some ''Chapati, Paneer Butter Masala, Jeera Rice, Salad''"
proof -
  have d: "dayNameOf istHost (date todayLunch) \<noteq> ''monday''"
    by (simp add: dayNameOf_def getDay_def days_def istHost_def todayLunch_def)
  have r: "relevantMenus istHost ''2024-01-03'' [yesterdayDinner, todayLunch] = [todayLunch]"
    by (simp add: relevantMenus_def onOrAfterToday_def date_ge_def istHost_def
        yesterdayDinner_def todayLunch_def)
  from resolver_fallback_when_unmatched
         [of istHost "''2024-01-03''" "[yesterdayDinner, todayLunch]" "''monday''"] d r
  have e: "menusByDay istHost ''2024-01-03'' [yesterdayDinner, todayLunch] ''monday''
       = fallbackWeeklyMenu ''monday''"
    by simp
  have "slotOf (menusByDay istHost ''2024-01-03'' [yesterdayDinner, todayLunch]) ''monday'' ''dinner''
       = Some ''Chapati, Paneer Butter Masala, Jeera Rice, Salad''"
    by (simp add: slotOf_def e) (simp add: fallbackWeeklyMenu_def)
  with d e show ?thesis by blast
qed

subsection \<open>Display strings\<close>

text \<open>
  C3. The display string of a record: for a flat payload the join of all its entries with
  a comma and a space (empty for no entries, otherwise the first entry followed by each
  further entry prefixed with the separator); for a keyed payload the join of the entries
  under the record's own meal type, and empty when that key is absent or the payload is
  neither an array nor an object. A record whose display string is empty leaves the whole
  result as it was; one with a meal type and a non-empty display string puts that string
  into its slot. A record on or after today with meal type breakfast and the flat payload
  Tea, Toast gives breakfast the string \<open>Tea, Toast\<close>.
\<close>

theorem display_string_rules:
  "itemsString (ItemsArray xs) mt = join_comma xs
   \<and> join_comma [] = []
   \<and> join_comma (x # xs) = x @ concat (map (\<lambda>y. '', '' @ y) xs)
   \<and> (obj mt = Some ys \<longrightarrow> itemsString (ItemsObject obj) mt = join_comma ys)
   \<and> (obj mt = None \<longrightarrow> itemsString (ItemsObject obj) mt = [])
   \<and> itemsString ItemsOther mt = []
   \<and> (items menu = Some its \<and> itemsString its (meal_type menu) = [] \<longrightarrow>
        applyMenu h grouped menu = grouped)
   \<and> (items menu = Some its \<and> meal_type menu \<noteq> [] \<and> itemsString its (meal_type menu) \<noteq> [] \<longrightarrow>
        slotOf (applyMenu h grouped menu) (dayNameOf h (date menu)) (meal_type menu)
          = Some (itemsString its (meal_type menu)))
   \<and> (onOrAfterToday h today menu \<and> meal_type menu = ''breakfast''
        \<and> items menu = Some (ItemsArray [''Tea'', ''Toast'']) \<longrightarrow>
        slotOf (menusByDay h today [menu]) (dayNameOf h (date menu)) ''breakfast''
          = Some ''Tea, Toast'')"
proof -
  have skip: "applyMenu h grouped menu = grouped"
    if "items menu = Some its" "itemsString its (meal_type menu) = []"
    using that by (intro applyMenu_skip) simp
  have overwrite: "slotOf (applyMenu h grouped menu) (dayNameOf h (date menu)) (meal_type menu)
          = Some (itemsString its (meal_type menu))"
    if "items menu = Some its" "meal_type menu \<noteq> []" "itemsString its (meal_type menu) \<noteq> []"
    using that by (rule slotOf_applyMenu_same)
  have tea: "slotOf (menusByDay h today [menu]) (dayNameOf h (date menu)) ''breakfast''
          = Some ''Tea, Toast''"
    if "onOrAfterToday h today menu" "meal_type menu = ''breakfast''"
       "items menu = Some (ItemsArray [''Tea'', ''Toast''])"
    using that slotOf_applyMenu_same [of menu "ItemsArray [''Tea'', ''Toast'']" h fallbackWeeklyMenu]
    by (simp add: single_menu_day itemsString_def)
  have flat: "itemsString (ItemsArray xs) mt = join_comma xs"
    and keyed: "obj mt = Some ys \<longrightarrow> itemsString (ItemsObject obj) mt = join_comma ys"
    and absent: "obj mt = None \<longrightarrow> itemsString (ItemsObject obj) mt = []"
    and other: "itemsString ItemsOther mt = []"
    by (simp_all add: itemsString_def)
  have nil: "join_comma [] = []" by simp
  note cons = join_comma_concat [of x xs]
  from flat nil cons keyed absent other skip overwrite tea show ?thesis by blast
qed

theorem display_string_rules_witness:
  "itemsString (ItemsArray [''Tea'', ''Toast'']) ''breakfast'' = ''Tea, Toast''
   \<and> itemsString (ItemsObject [''lunch'' \<mapsto> [''Rice'', ''Dal''], ''dinner'' \<mapsto> [''Soup'']]) ''lunch''
        = ''Rice, Dal''
   \<and> items todaySnacksEmpty = Some (ItemsObject [''lunch'' \<mapsto> [''Rice'']])
   \<and> itemsString (ItemsObject [''lunch'' \<mapsto> [''Rice'']]) (meal_type todaySnacksEmpty) = []
   \<and> applyMenu istHost fallbackWeeklyMenu todaySnacksEmpty = fallbackWeeklyMenu
   \<and> onOrAfterToday istHost ''2024-01-03'' todayBreakfast
   \<and> slotOf (menusByDay istHost ''2024-01-03'' [todayBreakfast]) ''wednesday'' ''breakfast''
        = Some ''Tea, Toast''"
proof -
  have i: "items todaySnacksEmpty = Some (ItemsObject [''lunch'' \<mapsto> [''Rice'']])"
    "itemsString (ItemsObject [''lunch'' \<mapsto> [''Rice'']]) (meal_type todaySnacksEmpty) = []"
    by (simp_all add: todaySnacksEmpty_def itemsString_def)
  have b: "onOrAfterToday istHost ''2024-01-03'' todayBreakfast"
    "meal_type todayBreakfast = ''breakfast''"
    "items todayBreakfast = Some (ItemsArray [''Tea'', ''Toast''])"
    "dayNameOf istHost (date todayBreakfast) = ''wednesday''"
    by (simp_all add: onOrAfterToday_def date_ge_def dayNameOf_def getDay_def days_def
        example_menus)
  have k: "[''lunch'' \<mapsto> [''Rice'', ''Dal''], ''dinner'' \<mapsto> [''Soup'']] ''lunch'' = Some [''Rice'', ''Dal'']"
    by simp
  note r1 = display_string_rules
      [of "[''Toast'']" "''breakfast''" "''Tea''" "[''lunch'' \<mapsto> [''Rice'']]" "[]"
          todaySnacksEmpty "ItemsObject [''lunch'' \<mapsto> [''Rice'']]" istHost fallbackWeeklyMenu
          "''2024-01-03''"]
  note r2 = display_string_rules
      [of "[''Tea'', ''Toast'']" "''lunch''" "''Rice''"
          "[''lunch'' \<mapsto> [''Rice'', ''Dal''], ''dinner'' \<mapsto> [''Soup'']]" "[''Rice'', ''Dal'']"
          todayBreakfast "ItemsArray [''Tea'', ''Toast'']" istHost fallbackWeeklyMenu
          "''2024-01-03''"]
  from r1 i have skip: "applyMenu istHost fallbackWeeklyMenu todaySnacksEmpty = fallbackWeeklyMenu"
    by blast
  from r2 have flat: "itemsString (ItemsArray [''Tea'', ''Toast'']) ''breakfast'' = ''Tea, Toast''"
    by (simp add: itemsString_def)
  from r2 k have keyed: "itemsString (ItemsObject [''lunch'' \<mapsto> [''Rice'', ''Dal''], ''dinner'' \<mapsto> [''Soup'']]) ''lunch''
        = ''Rice, Dal''"
    by simp
  from r2 b have tea: "slotOf (menusByDay istHost ''2024-01-03'' [todayBreakfast]) ''wednesday'' ''breakfast''
        = Some ''Tea, Toast''"
    by simp
  from flat keyed i skip b(1) tea show ?thesis by blast
qed

subsection \<open>Frame of one application\<close>

text \<open>
  Applying one record leaves every slot other than the one named by its meal type in the
  bucket the resolver derives from its date as it was, and leaves every other day whole; a
  record with a meal type and a non-empty display string puts that string into that slot.
  For a record dated today with meal type lunch whose payload has Rice, Dal under lunch,
  the lunch slot of the bucket derived from today's date string is \<open>Rice, Dal\<close>, every
  other slot of that bucket is the fallback's, and every other day is the fallback's. The
  bucket is the one \<open>getDay\<close> gives for the parsed date in the local time zone of the
  host, which need not be the weekday of the calendar date.
\<close>

lemma applyMenu_frame:
  "((day \<noteq> dayNameOf h (date menu) \<or> slot \<noteq> meal_type menu) \<longrightarrow>
       slotOf (applyMenu h grouped menu) day slot = slotOf grouped day slot)
   \<and> (day \<noteq> dayNameOf h (date menu) \<longrightarrow> applyMenu h grouped menu day = grouped day)
   \<and> (items menu = Some its \<and> meal_type menu \<noteq> [] \<and> itemsString its (meal_type menu) \<noteq> [] \<longrightarrow>
        slotOf (applyMenu h grouped menu) (dayNameOf h (date menu)) (meal_type menu)
          = Some (itemsString its (meal_type menu)))
   \<and> (parseDate h today = Some t0 \<and> date menu = today \<and> meal_type menu = ''lunch''
        \<and> items menu = Some (ItemsObject obj) \<and> obj ''lunch'' = Some [''Rice'', ''Dal''] \<longrightarrow>
        slotOf (menusByDay h today [menu]) (dayNameOf h today) ''lunch'' = Some ''Rice, Dal''
        \<and> (\<forall>other. other \<noteq> ''lunch'' \<longrightarrow>
              slotOf (menusByDay h today [menu]) (dayNameOf h today) other
                = slotOf fallbackWeeklyMenu (dayNameOf h today) other)
        \<and> (\<forall>d. d \<noteq> dayNameOf h today \<longrightarrow> menusByDay h today [menu] d = fallbackWeeklyMenu d))"
proof -
  have frame: "slotOf (applyMenu h grouped menu) day slot = slotOf grouped day slot"
    if "day \<noteq> dayNameOf h (date menu) \<or> slot \<noteq> meal_type menu"
    using that by (rule slotOf_applyMenu_other)
  have frame_day: "applyMenu h grouped menu day = grouped day"
    if "day \<noteq> dayNameOf h (date menu)"
    using that by (simp add: applyMenu_other_day)
  have overwrite: "slotOf (applyMenu h grouped menu) (dayNameOf h (date menu)) (meal_type menu)
          = Some (itemsString its (meal_type menu))"
    if "items menu = Some its" "meal_type menu \<noteq> []" "itemsString its (meal_type menu) \<noteq> []"
    using that by (rule slotOf_applyMenu_same)
  have example: "slotOf (menusByDay h today [menu]) (dayNameOf h today) ''lunch'' = Some ''Rice, Dal''
        \<and> (\<forall>other. other \<noteq> ''lunch'' \<longrightarrow>
              slotOf (menusByDay h today [menu]) (dayNameOf h today) other
                = slotOf fallbackWeeklyMenu (dayNameOf h today) other)
        \<and> (\<forall>d. d \<noteq> dayNameOf h today \<longrightarrow> menusByDay h today [menu] d = fallbackWeeklyMenu d)"
    if p: "parseDate h today = Some t0" "date menu = today" "meal_type menu = ''lunch''"
       "items menu = Some (ItemsObject obj)" "obj ''lunch'' = Some [''Rice'', ''Dal'']"
  proof -
    have one: "menusByDay h today [menu] = applyMenu h fallbackWeeklyMenu menu"
      using p(1,2) by (intro single_menu_day today_onOrAfter)
    have s: "itemsString (ItemsObject obj) (meal_type menu) = ''Rice, Dal''"
      using p(3,5) by (simp add: itemsString_def)
    have "slotOf (applyMenu h fallbackWeeklyMenu menu) (dayNameOf h (date menu)) (meal_type menu)
            = Some (itemsString (ItemsObject obj) (meal_type menu))"
      using p(3,4) s by (intro slotOf_applyMenu_same) simp_all
    then have a: "slotOf (menusByDay h today [menu]) (dayNameOf h today) ''lunch'' = Some ''Rice, Dal''"
      using p(2,3) s one by simp
    have b: "slotOf (menusByDay h today [menu]) (dayNameOf h today) other
                = slotOf fallbackWeeklyMenu (dayNameOf h today) other"
      if "other \<noteq> ''lunch''" for other
      using that p(3) by (simp add: one slotOf_applyMenu_other)
    have c: "menusByDay h today [menu] d = fallbackWeeklyMenu d" if "d \<noteq> dayNameOf h today" for d
      using that p(2) by (simp add: one applyMenu_other_day)
    from a b c show ?thesis by blast
  qed
  from frame frame_day overwrite example show ?thesis by blast
qed

lemma applyMenu_frame_example:
  "parseDate istHost ''2024-01-03'' = Some 1704240000000
   \<and> date todayLunch = ''2024-01-03'' \<and> meal_type todayLunch = ''lunch''
   \<and> items todayLunch = Some (ItemsObject [''lunch'' \<mapsto> [''Rice'', ''Dal'']])
   \<and> dayNameOf istHost ''2024-01-03'' = ''wednesday''
   \<and> slotOf (menusByDay istHost ''2024-01-03'' [todayLunch]) ''wednesday'' ''lunch''
        = Some ''Rice, Dal''
   \<and> slotOf (menusByDay istHost ''2024-01-03'' [todayLunch]) ''wednesday'' ''breakfast''
        = Some ''Dosa, Coconut Chutney, Upma, Coffee/Tea''
   \<and> slotOf (menusByDay istHost ''2024-01-03'' [todayLunch]) ''wednesday'' ''snacks''
        = Some ''Vada Pav, Coffee/Tea''
   \<and> slotOf (menusByDay istHost ''2024-01-03'' [todayLunch]) ''wednesday'' ''dinner''
        = Some ''Chapati, Egg Curry, Veg Pulao, Raita''
   \<and> menusByDay istHost ''2024-01-03'' [todayLunch] ''thursday'' = fallbackWeeklyMenu ''thursday''"
proof -
  have p: "parseDate istHost ''2024-01-03'' = Some 1704240000000"
    "date todayLunch = ''2024-01-03''" "meal_type todayLunch = ''lunch''"
    "items todayLunch = Some (ItemsObject [''lunch'' \<mapsto> [''Rice'', ''Dal'']])"
    "[''lunch'' \<mapsto> [''Rice'', ''Dal'']] ''lunch'' = Some [''Rice'', ''Dal'']"
    by (simp_all add: example_menus)
  have d: "dayNameOf istHost ''2024-01-03'' = ''wednesday''"
    by (simp add: dayNameOf_def getDay_def days_def istHost_def)
  have f: "slotOf fallbackWeeklyMenu ''wednesday'' ''breakfast'' = Some ''Dosa, Coconut Chutney, Upma, Coffee/Tea''"
    "slotOf fallbackWeeklyMenu ''wednesday'' ''snacks'' = Some ''Vada Pav, Coffee/Tea''"
    "slotOf fallbackWeeklyMenu ''wednesday'' ''dinner'' = Some ''Chapati, Egg Curry, Veg Pulao, Raita''"
    by (simp_all add: slotOf_def fallbackWeeklyMenu_def)
  from applyMenu_frame
         [of "''wednesday''" istHost todayLunch "''lunch''" fallbackWeeklyMenu
             "ItemsObject [''lunch'' \<mapsto> [''Rice'', ''Dal'']]" "''2024-01-03''" 1704240000000
             "[''lunch'' \<mapsto> [''Rice'', ''Dal'']]"] p
  have e: "slotOf (menusByDay istHost ''2024-01-03'' [todayLunch]) (dayNameOf istHost ''2024-01-03'') ''lunch'' = Some ''Rice, Dal''"
    "\<And>other. other \<noteq> ''lunch'' \<Longrightarrow>
              slotOf (menusByDay istHost ''2024-01-03'' [todayLunch]) (dayNameOf istHost ''2024-01-03'') other
                = slotOf fallbackWeeklyMenu (dayNameOf istHost ''2024-01-03'') other"
    "\<And>d. d \<noteq> dayNameOf istHost ''2024-01-03'' \<Longrightarrow> menusByDay istHost ''2024-01-03'' [todayLunch] d = fallbackWeeklyMenu d"
    by blast+
  have "slotOf (menusByDay istHost ''2024-01-03'' [todayLunch]) ''wednesday'' ''breakfast''
        = Some ''Dosa, Coconut Chutney, Upma, Coffee/Tea''"
    using e(2) [of "''breakfast''"] by (simp add: d f)
  moreover have "slotOf (menusByDay istHost ''2024-01-03'' [todayLunch]) ''wednesday'' ''snacks''
        = Some ''Vada Pav, Coffee/Tea''"
    using e(2) [of "''snacks''"] by (simp add: d f)
  moreover have "slotOf (menusByDay istHost ''2024-01-03'' [todayLunch]) ''wednesday'' ''dinner''
        = Some ''Chapati, Egg Curry, Veg Pulao, Raita''"
    using e(2) [of "''dinner''"] by (simp add: d f)
  moreover have "menusByDay istHost ''2024-01-03'' [todayLunch] ''thursday'' = fallbackWeeklyMenu ''thursday''"
    using e(3) [of "''thursday''"] by (simp add: d)
  moreover have "slotOf (menusByDay istHost ''2024-01-03'' [todayLunch]) ''wednesday'' ''lunch''
        = Some ''Rice, Dal''"
    using e(1) by (simp add: d)
  ultimately show ?thesis using p(1-4) d by blast
qed

subsection \<open>The bucket of a record dated today, west of UTC\<close>

text \<open>
  C4. The claim: for a record dated today with meal type lunch and items
  \<open>{lunch: ["Rice", "Dal"]}\<close> the resolved lunch slot for today's weekday is
  \<open>Rice, Dal\<close> and the other three slots of that day are the fallback's. On a host in
  New York this fails. Today is 3 January 2024, a Wednesday, both by the calendar date
  of the string \<open>2024-01-03\<close> and by \<open>getCurrentDay\<close> at 10:00 local time, an instant
  of that same UTC day. The record dated \<open>2024-01-03\<close> passes the filter, but the
  resolver reads the local day of the week of its UTC midnight, which is Tuesday evening
  local time: the string \<open>Rice, Dal\<close> goes to Tuesday's lunch and Wednesday's lunch
  keeps the fallback.
\<close>

theorem today_lunch_west_of_utc:
  "parseDate nyHost ''2024-01-03'' = Some 1704240000000
   \<and> days ! nat ((1704240000000 div 86400000 + 4) mod 7) = ''wednesday''
   \<and> nyMorning div 86400000 = 1704240000000 div 86400000
   \<and> getCurrentDay nyHost nyMorning = ''wednesday''
   \<and> date todayLunch = ''2024-01-03'' \<and> meal_type todayLunch = ''lunch''
   \<and> items todayLunch = Some (ItemsObject [''lunch'' \<mapsto> [''Rice'', ''Dal'']])
   \<and> onOrAfterToday nyHost ''2024-01-03'' todayLunch
   \<and> dayNameOf nyHost (date todayLunch) = ''tuesday''
   \<and> slotOf (menusByDay nyHost ''2024-01-03'' [todayLunch]) ''wednesday'' ''lunch''
        = Some ''Rice, Dal Makhani, Bhindi Fry, Chapati, Curd''
   \<and> slotOf (menusByDay nyHost ''2024-01-03'' [todayLunch]) ''wednesday'' ''lunch''
        \<noteq> Some ''Rice, Dal''
   \<and> slotOf (menusByDay nyHost ''2024-01-03'' [todayLunch]) ''tuesday'' ''lunch''
        = Some ''Rice, Dal''"
proof -
  have p: "parseDate nyHost ''2024-01-03'' = Some 1704240000000"
    by (simp add: nyHost_def)
  have cal: "days ! nat ((1704240000000 div 86400000 + 4) mod 7) = ''wednesday''"
    by (simp add: days_def)
  have same_day: "nyMorning div 86400000 = 1704240000000 div 86400000"
    by (simp add: nyMorning_def)
  have tab: "getCurrentDay nyHost nyMorning = ''wednesday''"
    by (simp add: getCurrentDay_def getDay_def days_def nyHost_def nyMorning_def)
  have r: "date todayLunch = ''2024-01-03''" "meal_type todayLunch = ''lunch''"
    "items todayLunch = Some (ItemsObject [''lunch'' \<mapsto> [''Rice'', ''Dal'']])"
    by (simp_all add: todayLunch_def)
  have kept: "onOrAfterToday nyHost ''2024-01-03'' todayLunch"
    using p r(1) by (rule today_onOrAfter)
  have bucket: "dayNameOf nyHost (date todayLunch) = ''tuesday''"
    by (simp add: dayNameOf_def getDay_def days_def nyHost_def todayLunch_def)
  have one: "menusByDay nyHost ''2024-01-03'' [todayLunch]
               = applyMenu nyHost fallbackWeeklyMenu todayLunch"
    using kept by (rule single_menu_day)
  have "slotOf (menusByDay nyHost ''2024-01-03'' [todayLunch]) ''wednesday'' ''lunch''
          = slotOf fallbackWeeklyMenu ''wednesday'' ''lunch''"
    unfolding one by (rule slotOf_applyMenu_other) (simp add: bucket)
  then have wed: "slotOf (menusByDay nyHost ''2024-01-03'' [todayLunch]) ''wednesday'' ''lunch''
        = Some ''Rice, Dal Makhani, Bhindi Fry, Chapati, Curd''"
    by (simp add: slotOf_def fallbackWeeklyMenu_def)
  then have not_wed: "slotOf (menusByDay nyHost ''2024-01-03'' [todayLunch]) ''wednesday'' ''lunch''
        \<noteq> Some ''Rice, Dal''"
    by simp
  have "slotOf (applyMenu nyHost fallbackWeeklyMenu todayLunch)
          (dayNameOf nyHost (date todayLunch)) (meal_type todayLunch)
          = Some (itemsString (ItemsObject [''lunch'' \<mapsto> [''Rice'', ''Dal'']]) (meal_type todayLunch))"
    by (rule slotOf_applyMenu_same [OF r(3)]) (simp_all add: r(2) itemsString_def)
  then have tue: "slotOf (menusByDay nyHost ''2024-01-03'' [todayLunch]) ''tuesday'' ''lunch''
        = Some ''Rice, Dal''"
    by (simp add: one bucket r(2) itemsString_def)
  from p cal same_day tab r kept bucket wed not_wed tue show ?thesis by blast
qed

subsection \<open>Last write wins\<close>






subsection \<open>Total coverage\<close>

lemma fallback_all_slots:
  "\<forall>day \<in> set days. \<forall>slot \<in> set mealSlots.
     \<exists>s. s \<noteq> [] \<and> slotOf fallbackWeeklyMenu day slot = Some s"
  by (simp add: days_def mealSlots_def slotOf_def fallbackWeeklyMenu_def)

lemma fallback_covers:
  "day \<in> set days \<Longrightarrow> slot \<in> set mealSlots \<Longrightarrow>
   \<exists>s. s \<noteq> [] \<and> slotOf fallbackWeeklyMenu day slot = Some s"
  using fallback_all_slots by blast

lemma applyMenu_keeps_populated:
  assumes "\<exists>s. s \<noteq> [] \<and> slotOf grouped day slot = Some s"
  shows "\<exists>s. s \<noteq> [] \<and> slotOf (applyMenu h grouped menu) day slot = Some s"
proof (cases "day = dayNameOf h (date menu) \<and> slot = meal_type menu")
  case False
  then have "slotOf (applyMenu h grouped menu) day slot = slotOf grouped day slot"
    by (intro slotOf_applyMenu_other) blast
  with assms show ?thesis by simp
next
  case True
  show ?thesis
  proof (cases "items menu = None \<or> meal_type menu = []
                \<or> (\<exists>its. items menu = Some its \<and> itemsString its (meal_type menu) = [])")
    case True
    then have "applyMenu h grouped menu = grouped" by (rule applyMenu_skip)
    with assms show ?thesis by simp
  next
    case False
    then obtain its where i: "items menu = Some its" "meal_type menu \<noteq> []"
      "itemsString its (meal_type menu) \<noteq> []"
      by auto
    from slotOf_applyMenu_same [OF i] \<open>day = dayNameOf h (date menu) \<and> slot = meal_type menu\<close> i(3)
    show ?thesis by auto
  qed
qed

lemma foldl_applyMenu_keeps_populated:
  "\<exists>s. s \<noteq> [] \<and> slotOf grouped day slot = Some s \<Longrightarrow>
   \<exists>s. s \<noteq> [] \<and> slotOf (foldl (applyMenu h) grouped ms) day slot = Some s"
  by (induction ms arbitrary: grouped) (simp_all add: applyMenu_keeps_populated)

text \<open>
  C6. For every list of fetched records, every one of the seven day names has each of the
  four meal slots populated in the result, with a non-empty string.
\<close>

theorem resolver_total_coverage:
  "\<forall>day \<in> set days. \<forall>slot \<in> set mealSlots.
     \<exists>s. s \<noteq> [] \<and> slotOf (menusByDay h today ms) day slot = Some s"
  by (simp only: menusByDay_fold initGrouped_fallback)
     (blast intro: foldl_applyMenu_keeps_populated fallback_covers)

theorem resolver_total_coverage_witness:
  "''wednesday'' \<in> set days \<and> ''lunch'' \<in> set mealSlots \<and> ''snacks'' \<in> set mealSlots
   \<and> slotOf (menusByDay istHost ''2024-01-03'' [todayLunch, todaySnacksEmpty]) ''wednesday'' ''lunch''
        = Some ''Rice, Dal''
   \<and> slotOf (menusByDay istHost ''2024-01-03'' [todayLunch, todaySnacksEmpty]) ''wednesday'' ''snacks''
        = Some ''Vada Pav, Coffee/Tea''"
proof -
  have m: "''wednesday'' \<in> set days" "''lunch'' \<in> set mealSlots" "''snacks'' \<in> set mealSlots"
    by (simp_all add: days_def mealSlots_def)
  from resolver_total_coverage [of istHost "''2024-01-03''" "[todayLunch, todaySnacksEmpty]"] m
  obtain s1 s2 where
    "slotOf (menusByDay istHost ''2024-01-03'' [todayLunch, todaySnacksEmpty]) ''wednesday'' ''lunch'' = Some s1"
    "slotOf (menusByDay istHost ''2024-01-03'' [todayLunch, todaySnacksEmpty]) ''wednesday'' ''snacks'' = Some s2"
    by blast
  moreover have
    "slotOf (menusByDay istHost ''2024-01-03'' [todayLunch, todaySnacksEmpty]) ''wednesday'' ''lunch'' = Some ''Rice, Dal''"
    by (simp add: resolver_defs example_menus)
  moreover have
    "slotOf (menusByDay istHost ''2024-01-03'' [todayLunch, todaySnacksEmpty]) ''wednesday'' ''snacks'' = Some ''Vada Pav, Coffee/Tea''"
    by (simp add: resolver_defs example_menus)
  ultimately show ?thesis using m by simp
qed

section \<open>Properties of the Session/Profile Binder\<close>

lemmas example_session = asha_def signedOut_def signedIn_def failingBackend_def
  workingBackend_def noUpdates_def

subsection \<open>login\<close>

text \<open>
  C7. When the backend answers the sign-in with an error, \<open>login\<close> throws that error to
  its caller, does not touch the user state (so a null user stays null), ends with the
  loading flag false, and has shown one more notification, the destructive
  \<open>Login failed\<close> one carrying the error's message.
\<close>

theorem login_failure:
  assumes "signInWithPassword be em password = Some err"
  shows "fst (login be em password st) = Inl err
       \<and> user (snd (login be em password st)) = user st
       \<and> (user st = None \<longrightarrow> user (snd (login be em password st)) = None)
       \<and> isLoading (snd (login be em password st)) = False
       \<and> toasts (snd (login be em password st))
           = toasts st @ [\<lparr>title = ''Login failed'', description = message err,
                            destructive = True\<rparr>]"
  using assms by (simp add: login_def Let_def)

theorem login_failure_witness:
  "signInWithPassword failingBackend ''asha@example.com'' ''wrong''
     = Some (AuthError ''Invalid login credentials'')
   \<and> user signedOut = None
   \<and> login failingBackend ''asha@example.com'' ''wrong'' signedOut
       = (Inl (AuthError ''Invalid login credentials''),
          \<lparr>user = None, isLoading = False,
           toasts = [\<lparr>title = ''Login failed'', description = ''Invalid login credentials'',
                      destructive = True\<rparr>],
           consoleErrors = [(''Login failed:'', ''Invalid login credentials'')],
           darkClass = False,
           remoteCalls = [SignInWithPassword ''asha@example.com'' ''wrong'']\<rparr>)"
proof -
  have f: "signInWithPassword failingBackend ''asha@example.com'' ''wrong''
     = Some (AuthError ''Invalid login credentials'')"
    by (simp add: failingBackend_def)
  have n: "user signedOut = None" by (simp add: signedOut_def)
  note r = login_failure [OF f, of signedOut]
  have rest: "consoleErrors (snd (login failingBackend ''asha@example.com'' ''wrong'' signedOut))
        = [(''Login failed:'', ''Invalid login credentials'')]"
    "darkClass (snd (login failingBackend ''asha@example.com'' ''wrong'' signedOut)) = False"
    "remoteCalls (snd (login failingBackend ''asha@example.com'' ''wrong'' signedOut))
        = [SignInWithPassword ''asha@example.com'' ''wrong'']"
    by (simp_all add: login_def Let_def failingBackend_def signedOut_def)
  have "snd (login failingBackend ''asha@example.com'' ''wrong'' signedOut)
       = \<lparr>user = None, isLoading = False,
           toasts = [\<lparr>title = ''Login failed'', description = ''Invalid login credentials'',
                      destructive = True\<rparr>],
           consoleErrors = [(''Login failed:'', ''Invalid login credentials'')],
           darkClass = False,
           remoteCalls = [SignInWithPassword ''asha@example.com'' ''wrong'']\<rparr>"
    using r n rest by (intro auth_state.equality) (simp_all add: signedOut_def)
  with r f n show ?thesis by (simp add: prod_eq_iff)
qed

subsection \<open>updateProfile on failure\<close>

text \<open>
  C8. With no profile loaded \<open>updateProfile\<close> returns with the whole state as it was, in
  particular without any call to the backend. With a profile loaded and the remote write
  answered with an error, it returns normally (nothing is thrown), the user state, the
  loading flag and the theme class of the document are as they were, and one more
  notification, the destructive \<open>Profile update failed\<close> one, has been shown.
\<close>

theorem updateProfile_failure_atomic:
  "(user st = None \<longrightarrow>
       updateProfile be updates st = (Inr (), st)
       \<and> remoteCalls (snd (updateProfile be updates st)) = remoteCalls st)
   \<and> (user st = Some u \<and> profilesUpdate be (profileUpdatesOf updates) (user_id u) = Some err \<longrightarrow>
       fst (updateProfile be updates st) = Inr ()
       \<and> user (snd (updateProfile be updates st)) = user st
       \<and> isLoading (snd (updateProfile be updates st)) = isLoading st
       \<and> darkClass (snd (updateProfile be updates st)) = darkClass st
       \<and> toasts (snd (updateProfile be updates st))
           = toasts st @ [\<lparr>title = ''Profile update failed'', description = message err,
                            destructive = True\<rparr>])"
  by (simp add: updateProfile_def Let_def)

theorem updateProfile_failure_atomic_witness:
  "user signedOut = None
   \<and> updateProfile workingBackend (noUpdates\<lparr>upd_theme := Some (Some ''dark'')\<rparr>) signedOut
       = (Inr (), signedOut)
   \<and> remoteCalls (snd (updateProfile workingBackend (noUpdates\<lparr>upd_theme := Some (Some ''dark'')\<rparr>)
                        signedOut)) = []
   \<and> user signedIn = Some asha
   \<and> profilesUpdate failingBackend (profileUpdatesOf (noUpdates\<lparr>upd_theme := Some (Some ''dark'')\<rparr>))
        (user_id asha) = Some (AuthError ''permission denied'')
   \<and> fst (updateProfile failingBackend (noUpdates\<lparr>upd_theme := Some (Some ''dark'')\<rparr>) signedIn)
       = Inr ()
   \<and> user (snd (updateProfile failingBackend (noUpdates\<lparr>upd_theme := Some (Some ''dark'')\<rparr>)
                  signedIn)) = Some asha
   \<and> darkClass (snd (updateProfile failingBackend (noUpdates\<lparr>upd_theme := Some (Some ''dark'')\<rparr>)
                       signedIn)) = False
   \<and> toasts (snd (updateProfile failingBackend (noUpdates\<lparr>upd_theme := Some (Some ''dark'')\<rparr>)
                    signedIn))
       = [\<lparr>title = ''Profile update failed'', description = ''permission denied'',
            destructive = True\<rparr>]"
proof -
  let ?upd = "noUpdates\<lparr>upd_theme := Some (Some ''dark'')\<rparr>"
  have a: "user signedOut = None" "user signedIn = Some asha"
    "profilesUpdate failingBackend (profileUpdatesOf ?upd) (user_id asha)
       = Some (AuthError ''permission denied'')"
    by (simp_all add: signedOut_def signedIn_def failingBackend_def)
  from updateProfile_failure_atomic [of signedOut workingBackend ?upd] a(1)
  have out: "updateProfile workingBackend ?upd signedOut = (Inr (), signedOut)"
    "remoteCalls (snd (updateProfile workingBackend ?upd signedOut)) = remoteCalls signedOut"
    by blast+
  from updateProfile_failure_atomic
         [of signedIn failingBackend ?upd asha "AuthError ''permission denied''"] a(2,3)
  have "fst (updateProfile failingBackend ?upd signedIn) = Inr ()
       \<and> user (snd (updateProfile failingBackend ?upd signedIn)) = user signedIn
       \<and> isLoading (snd (updateProfile failingBackend ?upd signedIn)) = isLoading signedIn
       \<and> darkClass (snd (updateProfile failingBackend ?upd signedIn)) = darkClass signedIn
       \<and> toasts (snd (updateProfile failingBackend ?upd signedIn))
           = toasts signedIn @ [\<lparr>title = ''Profile update failed'',
                                  description = message (AuthError ''permission denied''),
                                  destructive = True\<rparr>]"
    by blast
  then have fail: "fst (updateProfile failingBackend ?upd signedIn) = Inr ()"
    "user (snd (updateProfile failingBackend ?upd signedIn)) = Some asha"
    "darkClass (snd (updateProfile failingBackend ?upd signedIn)) = False"
    "toasts (snd (updateProfile failingBackend ?upd signedIn))
       = [\<lparr>title = ''Profile update failed'', description = ''permission denied'',
            destructive = True\<rparr>]"
    by (simp_all add: signedIn_def)
  have "remoteCalls (snd (updateProfile workingBackend ?upd signedOut)) = []"
    using out(2) by (simp add: signedOut_def)
  with a out(1) fail show ?thesis by blast
qed

subsection \<open>toggleTheme\<close>

text \<open>
  C9. With no profile loaded \<open>toggleTheme\<close> changes nothing. For every profile the theme
  it computes is \<open>light\<close> or \<open>dark\<close>, \<open>dark\<close> from \<open>light\<close> and \<open>light\<close> from
  \<open>dark\<close>; that value is the theme column of the one request sent, and when the write
  succeeds it is the theme stored in the user state and decides the theme class of the
  document; when the write fails the user state and the class are as they were.
\<close>

theorem toggleTheme_flips:
  "(user st = None \<longrightarrow> toggleTheme be st = (Inr (), st))
   \<and> (newTheme u = ''light'' \<or> newTheme u = ''dark'')
   \<and> (theme u = Some ''light'' \<longrightarrow> newTheme u = ''dark'')
   \<and> (theme u = Some ''dark'' \<longrightarrow> newTheme u = ''light'')
   \<and> (user st = Some u \<longrightarrow>
        remoteCalls (snd (toggleTheme be st))
          = remoteCalls st @ [ProfilesUpdate (themeRequest (newTheme u)) (user_id u)])
   \<and> (user st = Some u \<and> profilesUpdate be (themeRequest (newTheme u)) (user_id u) = None \<longrightarrow>
        user (snd (toggleTheme be st)) = Some (u\<lparr>theme := Some (newTheme u)\<rparr>)
        \<and> darkClass (snd (toggleTheme be st)) = (newTheme u = ''dark''))
   \<and> (user st = Some u \<and> profilesUpdate be (themeRequest (newTheme u)) (user_id u) = Some err \<longrightarrow>
        user (snd (toggleTheme be st)) = user st
        \<and> darkClass (snd (toggleTheme be st)) = darkClass st)"
  by (auto simp: toggleTheme_def newTheme_def Let_def split: option.splits)

theorem toggleTheme_flips_witness:
  "user signedOut = None \<and> toggleTheme workingBackend signedOut = (Inr (), signedOut)
   \<and> theme asha = Some ''light'' \<and> newTheme asha = ''dark''
   \<and> theme (asha\<lparr>theme := Some ''dark''\<rparr>) = Some ''dark''
   \<and> newTheme (asha\<lparr>theme := Some ''dark''\<rparr>) = ''light''
   \<and> user signedIn = Some asha
   \<and> profilesUpdate workingBackend (themeRequest (newTheme asha)) (user_id asha) = None
   \<and> user (snd (toggleTheme workingBackend signedIn)) = Some (asha\<lparr>theme := Some ''dark''\<rparr>)
   \<and> darkClass (snd (toggleTheme workingBackend signedIn)) = True
   \<and> profilesUpdate failingBackend (themeRequest (newTheme asha)) (user_id asha)
        = Some (AuthError ''permission denied'')
   \<and> user (snd (toggleTheme failingBackend signedIn)) = Some asha"
proof -
  have a: "user signedOut = None" "theme asha = Some ''light''"
    "theme (asha\<lparr>theme := Some ''dark''\<rparr>) = Some ''dark''" "user signedIn = Some asha"
    "profilesUpdate workingBackend (themeRequest (newTheme asha)) (user_id asha) = None"
    "profilesUpdate failingBackend (themeRequest (newTheme asha)) (user_id asha)
        = Some (AuthError ''permission denied'')"
    by (simp_all add: example_session)
  from toggleTheme_flips [of signedOut workingBackend asha] a(1,2)
  have b: "toggleTheme workingBackend signedOut = (Inr (), signedOut)" "newTheme asha = ''dark''"
    by blast+
  from toggleTheme_flips [of signedOut workingBackend "asha\<lparr>theme := Some ''dark''\<rparr>"] a(3)
  have c: "newTheme (asha\<lparr>theme := Some ''dark''\<rparr>) = ''light''"
    by blast
  from toggleTheme_flips [of signedIn workingBackend asha] a(4,5)
  have "user (snd (toggleTheme workingBackend signedIn)) = Some (asha\<lparr>theme := Some (newTheme asha)\<rparr>)
        \<and> darkClass (snd (toggleTheme workingBackend signedIn)) = (newTheme asha = ''dark'')"
    by blast
  then have d: "user (snd (toggleTheme workingBackend signedIn)) = Some (asha\<lparr>theme := Some ''dark''\<rparr>)"
    "darkClass (snd (toggleTheme workingBackend signedIn)) = True"
    by (simp_all add: b(2))
  from toggleTheme_flips [of signedIn failingBackend asha "AuthError ''permission denied''"] a(4,6)
  have "user (snd (toggleTheme failingBackend signedIn)) = user signedIn"
    by blast
  then have e: "user (snd (toggleTheme failingBackend signedIn)) = Some asha"
    by (simp add: a(4))
  from a b c d e show ?thesis by blast
qed

subsection \<open>updateProfile on success\<close>

text \<open>
  C10. With a profile loaded and the remote write accepted, the user state becomes the old
  profile overwritten by every supplied property of the partial: email, room number,
  registration number and admin flag included, and a supplied empty name included,
  although the request sent has no name column then. The request is the same whatever
  the partial holds for id, email, room number, registration number and admin flag, so
  those local changes are never part of what is persisted.
\<close>

theorem updateProfile_merges_whole_partial:
  "user st = Some u \<and> profilesUpdate be (profileUpdatesOf updates) (user_id u) = None \<longrightarrow>
     fst (updateProfile be updates st) = Inr ()
     \<and> user (snd (updateProfile be updates st)) = Some (mergeUser u updates)
     \<and> remoteCalls (snd (updateProfile be updates st))
         = remoteCalls st @ [ProfilesUpdate (profileUpdatesOf updates) (user_id u)]
     \<and> (\<forall>v. upd_email updates = Some v \<longrightarrow> email (mergeUser u updates) = v)
     \<and> (\<forall>v. upd_roomNumber updates = Some v \<longrightarrow> roomNumber (mergeUser u updates) = v)
     \<and> (\<forall>v. upd_regNumber updates = Some v \<longrightarrow> regNumber (mergeUser u updates) = v)
     \<and> (\<forall>v. upd_isAdmin updates = Some v \<longrightarrow> isAdmin (mergeUser u updates) = v)
     \<and> (\<forall>v. upd_name updates = Some v \<longrightarrow> name (mergeUser u updates) = v)
     \<and> (\<forall>v. upd_phoneNumber updates = Some v \<longrightarrow> phoneNumber (mergeUser u updates) = v)
     \<and> (\<forall>v. upd_avatar updates = Some v \<longrightarrow> avatar (mergeUser u updates) = v)
     \<and> (\<forall>v. upd_theme updates = Some v \<longrightarrow> theme (mergeUser u updates) = v)
     \<and> (upd_name updates = Some [] \<longrightarrow> col_name (profileUpdatesOf updates) = None)
     \<and> profileUpdatesOf updates
         = profileUpdatesOf (updates\<lparr>upd_id := i, upd_email := e, upd_roomNumber := ro,
                                     upd_regNumber := re, upd_isAdmin := ad\<rparr>)"
  by (auto simp: updateProfile_def Let_def mergeUser_def profileUpdatesOf_def truthy_def
      split: option.splits)

theorem updateProfile_merges_whole_partial_witness:
  "user signedIn = Some asha
   \<and> profilesUpdate workingBackend
        (profileUpdatesOf (noUpdates\<lparr>upd_name := Some [], upd_email := Some ''a@b.org'',
                                     upd_isAdmin := Some (Some True)\<rparr>)) (user_id asha) = None
   \<and> user (snd (updateProfile workingBackend
                  (noUpdates\<lparr>upd_name := Some [], upd_email := Some ''a@b.org'',
                              upd_isAdmin := Some (Some True)\<rparr>) signedIn))
       = Some (asha\<lparr>name := [], email := ''a@b.org'', isAdmin := Some True\<rparr>)
   \<and> remoteCalls (snd (updateProfile workingBackend
                  (noUpdates\<lparr>upd_name := Some [], upd_email := Some ''a@b.org'',
                              upd_isAdmin := Some (Some True)\<rparr>) signedIn))
       = [ProfilesUpdate \<lparr>col_name = None, col_phone_number = None, col_avatar = None,
                          col_theme = None\<rparr> ''u1'']"
proof -
  let ?upd = "noUpdates\<lparr>upd_name := Some [], upd_email := Some ''a@b.org'',
                              upd_isAdmin := Some (Some True)\<rparr>"
  have a: "user signedIn = Some asha"
    "profilesUpdate workingBackend (profileUpdatesOf ?upd) (user_id asha) = None"
    by (simp_all add: example_session)
  from updateProfile_merges_whole_partial [of signedIn asha workingBackend ?upd] a
  have b: "user (snd (updateProfile workingBackend ?upd signedIn)) = Some (mergeUser asha ?upd)"
    "remoteCalls (snd (updateProfile workingBackend ?upd signedIn))
         = remoteCalls signedIn @ [ProfilesUpdate (profileUpdatesOf ?upd) (user_id asha)]"
    by blast+
  have c: "mergeUser asha ?upd = asha\<lparr>name := [], email := ''a@b.org'', isAdmin := Some True\<rparr>"
    by (simp add: mergeUser_def asha_def noUpdates_def)
  have d: "remoteCalls signedIn @ [ProfilesUpdate (profileUpdatesOf ?upd) (user_id asha)]
         = [ProfilesUpdate \<lparr>col_name = None, col_phone_number = None, col_avatar = None,
                          col_theme = None\<rparr> ''u1'']"
    by (simp add: signedIn_def profileUpdatesOf_def truthy_def flatten_def noUpdates_def asha_def)
  from a b c d show ?thesis by simp
qed

end
